theory Spec2Isabelle
  imports Complex_Main "HOL-Library.Word" "HOL-Library.Sublist"
    "HOL-Library.Product_Lexorder" "HOL-Library.Option_ord"
begin

section \<open>Data model (app/models.py)\<close>

text \<open>
  Instants (\<open>datetime.utcnow()\<close>) are integers counting microseconds; a
  \<open>timedelta(minutes=m)\<close> is \<open>m * 60000000\<close>. Python integers are \<open>int\<close>,
  SQL \<open>Float\<close> columns are modelled over the reals, nullable columns are options.
\<close>

datatype ResourceType = SHELTER | FOOD | TRANSPORT

datatype RequestStatus = PENDING | MATCHED | CONFIRMED | COMPLETED | CANCELLED

type_synonym instant = int

definition timedelta_minutes :: "int \<Rightarrow> int" where
  "timedelta_minutes m = m * 60000000"

text \<open>
  class Resource. The field \<open>distance\<close> is the attribute that
  \<open>find_nearby_resources\<close> attaches to the objects it returns
  (\<open>resource.distance = distance\<close>); \<open>None\<close> means the attribute is absent
  (\<open>hasattr(resource, 'distance')\<close> is false). \<open>contact_phone\<close> is the decrypted
  property.
\<close>

record resource =
  res_id :: int
  name :: string
  resource_type :: ResourceType
  location :: string
  latitude :: "real option"
  longitude :: "real option"
  total_capacity :: int
  available_capacity :: int
  contact_phone :: "string option"
  price_per_unit :: real
  is_active :: bool
  updated_at :: instant
  distance :: "real option"

text \<open>
  Resource.update_capacity(used_capacity): returns the updated object and the
  boolean result.
\<close>

definition update_capacity :: "instant \<Rightarrow> resource \<Rightarrow> int \<Rightarrow> resource \<times> bool" where
  "update_capacity now r used_capacity =
     (if available_capacity r \<ge> used_capacity
      then (r\<lparr>available_capacity := available_capacity r - used_capacity,
              updated_at := now\<rparr>, True)
      else (r, False))"


text \<open>
  class EmergencyRequest. \<open>quantity_needed\<close> is kept nullable because the caller
  reads it as \<open>request.quantity_needed or 1\<close>.
\<close>

record emergency_request =
  req_id :: int
  reference_number :: string
  user_id :: int
  resource_id :: "int option"
  req_resource_type :: ResourceType
  req_location :: string
  req_latitude :: "real option"
  req_longitude :: "real option"
  quantity_needed :: "int option"
  status :: RequestStatus
  created_at :: instant
  matched_at :: "instant option"
  priority_level :: int
  total_cost :: real

text \<open>
  The session variables kept as JSON in \<open>USSDSession.session_data\<close>: a dictionary
  with at most the keys \<open>resource_type\<close>, \<open>location\<close>, \<open>resources\<close> and
  \<open>selected_resource_id\<close>; \<open>None\<close> is a missing key.
\<close>

record session_vars =
  sd_resource_type :: "string option"
  sd_location :: "string option"
  sd_resources :: "int list option"
  sd_selected_resource_id :: "int option"

record ussd_session =
  session_id :: string
  sess_user_id :: int
  current_step :: string
  session_data :: session_vars
  sess_created_at :: instant
  last_activity :: instant
  expires_at :: instant

text \<open>
  The tables: rows in storage order; \<open>session_id\<close> is a unique key, so the
  session table is a map.
\<close>

record database =
  resources :: "resource list"
  emergency_requests :: "emergency_request list"
  ussd_sessions :: "string \<rightharpoonup> ussd_session"

section \<open>MatchingService (app/services/matching_service.py)\<close>

subsection \<open>calculate_distance\<close>

text \<open>A Python float result: a finite number or \<open>float('inf')\<close>.\<close>

datatype pydistance = Finite real | Infinite

text \<open>Python truthiness of an optional float: \<open>None\<close> and \<open>0.0\<close> are false.\<close>

definition truthy :: "real option \<Rightarrow> bool" where
  "truthy x = (case x of None \<Rightarrow> False | Some v \<Rightarrow> v \<noteq> 0)"

definition radians :: "real \<Rightarrow> real" where
  "radians d = d * pi / 180"

definition calculate_distance ::
  "real option \<Rightarrow> real option \<Rightarrow> real option \<Rightarrow> real option \<Rightarrow> pydistance" where
  "calculate_distance lat1 lon1 lat2 lon2 =
     (if \<not> list_all truthy [lat1, lon1, lat2, lon2] then Infinite
      else
        (let lat1 = radians (the lat1); lon1 = radians (the lon1);
             lat2 = radians (the lat2); lon2 = radians (the lon2);
             dlat = lat2 - lat1;
             dlon = lon2 - lon1;
             a = (sin (dlat / 2))\<^sup>2 + cos lat1 * cos lat2 * (sin (dlon / 2))\<^sup>2;
             c = 2 * arcsin (sqrt a);
             r = 6371
         in Finite (c * r)))"

subsection \<open>find_nearby_resources\<close>

text \<open>
  \<open>str.lower()\<close> and SQL \<open>lower()\<close> on ASCII text, and the SQL \<open>LIKE\<close> operator:
  \<open>%\<close> matches any run of characters, \<open>_\<close> any single character.
  \<open>column.ilike(pattern)\<close> is \<open>lower(column) LIKE lower(pattern)\<close>.
\<close>

definition lower_char :: "char \<Rightarrow> char" where
  "lower_char c = (if 65 \<le> (of_char c :: nat) \<and> (of_char c :: nat) \<le> 90
                   then char_of (of_char c + 32 :: nat) else c)"

definition lower :: "string \<Rightarrow> string" where
  "lower s = map lower_char s"

fun like_match :: "string \<Rightarrow> string \<Rightarrow> bool" where
  "like_match [] s = (s = [])"
| "like_match (p # ps) s =
     (if p = CHR ''%'' then
        (like_match ps s \<or> (case s of [] \<Rightarrow> False | c # cs \<Rightarrow> like_match (p # ps) cs))
      else if p = CHR ''_'' then
        (case s of [] \<Rightarrow> False | c # cs \<Rightarrow> like_match ps cs)
      else
        (case s of [] \<Rightarrow> False | c # cs \<Rightarrow> c = p \<and> like_match ps cs))"

definition ilike :: "string \<Rightarrow> string \<Rightarrow> bool" where
  "ilike col pattern = like_match (lower pattern) (lower col)"

text \<open>The base query: active resources of the type with capacity left.\<close>

definition base_query :: "ResourceType \<Rightarrow> resource list \<Rightarrow> resource list" where
  "base_query rt rows =
     filter (\<lambda>r. resource_type r = rt \<and> is_active r = True \<and> available_capacity r > 0) rows"

text \<open>The loop that computes distances and filters by radius.\<close>

fun nearby_loop :: "real option \<Rightarrow> real option \<Rightarrow> real \<Rightarrow> resource list \<Rightarrow> resource list" where
  "nearby_loop user_lat user_lon radius_km [] = []"
| "nearby_loop user_lat user_lon radius_km (r # rs) =
     (if truthy (latitude r) \<and> truthy (longitude r) then
        (case calculate_distance user_lat user_lon (latitude r) (longitude r) of
           Finite d \<Rightarrow>
             if d \<le> radius_km
             then r\<lparr>distance := Some d\<rparr> # nearby_loop user_lat user_lon radius_km rs
             else nearby_loop user_lat user_lon radius_km rs
         | Infinite \<Rightarrow> nearby_loop user_lat user_lon radius_km rs)
      else nearby_loop user_lat user_lon radius_km rs)"

text \<open>
  \<open>list.sort\<close> is stable, as \<open>sort_key\<close> is; the key \<open>(r.distance,
  -r.available_capacity)\<close> is compared lexicographically.
\<close>

definition find_nearby_resources ::
  "resource list \<Rightarrow> ResourceType \<Rightarrow> string \<Rightarrow> real \<Rightarrow> real option \<Rightarrow> real option \<Rightarrow> resource list" where
  "find_nearby_resources rows rt loc radius_km user_lat user_lon =
     (let query = base_query rt rows in
      if truthy user_lat \<and> truthy user_lon then
        (let resources = query;
             nearby_resources = nearby_loop user_lat user_lon radius_km resources
         in sort_key (\<lambda>r. (distance r, - available_capacity r)) nearby_resources)
      else
        (let location_lower = lower loc;
             resources = filter (\<lambda>r. ilike (location r) (''%'' @ loc @ ''%'')
                                    \<or> ilike (location r) (''%'' @ location_lower @ ''%'')) query
         in sort_key (\<lambda>r. - available_capacity r) resources))"

subsection \<open>_apply_matching_algorithm and match_request_to_resource\<close>

text \<open>
  The score of one resource, statement by statement. The first argument is the
  interpreter's built-in \<open>hash\<close> on strings, which CPython salts per process
  (\<open>PYTHONHASHSEED\<close>); Python's \<open>%\<close> with a positive modulus is \<open>mod\<close>.
\<close>

definition resource_score :: "(string \<Rightarrow> int) \<Rightarrow> emergency_request \<Rightarrow> resource \<Rightarrow> real" where
  "resource_score hash emergency_request r =
     (let score = 0;
          score = (case distance r of
                     Some d \<Rightarrow> (let distance_score = max 0 (100 - (d * 2)) in score + distance_score)
                   | None \<Rightarrow> score + 50);
          capacity_ratio = real_of_int (available_capacity r) / real_of_int (max (total_capacity r) 1);
          capacity_score = capacity_ratio * 50;
          score = score + capacity_score;
          score = (if priority_level emergency_request \<ge> 4 then
                     (if resource_type r = TRANSPORT then score + 30
                      else if resource_type r = SHELTER then score + 20
                      else score)
                   else score);
          score = (if price_per_unit r = 0 then score + 25 else score);
          score = score + real_of_int (hash (name r) mod 10)
      in score)"

text \<open>
  \<open>scored_resources.sort(key=lambda x: x[1], reverse=True)\<close> keeps the original
  order of equal scores, which is the stable ascending sort on the negated score.
\<close>

definition apply_matching_algorithm ::
  "(string \<Rightarrow> int) \<Rightarrow> emergency_request \<Rightarrow> resource list \<Rightarrow> resource option" where
  "apply_matching_algorithm hash emergency_request rs =
     (if rs = [] then None
      else
        (let scored_resources = map (\<lambda>r. (r, resource_score hash emergency_request r)) rs;
             scored_resources = sort_key (\<lambda>x. - snd x) scored_resources
         in case scored_resources of
              [] \<Rightarrow> None
            | best # _ \<Rightarrow> Some (fst best)))"

text \<open>\<open>max_radius\<close> is the configuration value \<open>MAX_LOCATION_RADIUS_KM\<close> (default 50).\<close>

definition match_request_to_resource ::
  "(string \<Rightarrow> int) \<Rightarrow> real \<Rightarrow> resource list \<Rightarrow> emergency_request \<Rightarrow> resource option" where
  "match_request_to_resource hash max_radius rows emergency_request =
     (let rs = find_nearby_resources rows (req_resource_type emergency_request)
                 (req_location emergency_request) max_radius
                 (req_latitude emergency_request) (req_longitude emergency_request)
      in if rs = [] then None
         else apply_matching_algorithm hash emergency_request rs)"

subsection \<open>auto_match_pending_requests\<close>

text \<open>
  Writing a mutated object back to its table on commit: the row with the same
  primary key is replaced. Only mapped columns are stored, so the \<open>distance\<close>
  attribute is dropped; every query yields objects without it.
\<close>

definition store_resource :: "resource \<Rightarrow> resource list \<Rightarrow> resource list" where
  "store_resource r rows = map (\<lambda>x. if res_id x = res_id r then r\<lparr>distance := None\<rparr> else x) rows"

definition store_request :: "emergency_request \<Rightarrow> emergency_request list \<Rightarrow> emergency_request list" where
  "store_request q reqs = map (\<lambda>x. if req_id x = req_id q then q else x) reqs"

text \<open>\<open>request.quantity_needed or 1\<close>: \<open>None\<close> and \<open>0\<close> are false.\<close>

definition quantity_or_1 :: "int option \<Rightarrow> int" where
  "quantity_or_1 q = (case q of None \<Rightarrow> 1 | Some n \<Rightarrow> if n = 0 then 1 else n)"

text \<open>
  One iteration of the loop over the pending requests: the new resource table,
  the request object after the iteration, and whether it counted as matched.
  The result of \<open>update_capacity\<close> is discarded, as in the source. The
  notifications are sent inside a \<open>try\<close> whose handler only logs; they touch no
  table.
\<close>

definition match_one ::
  "(string \<Rightarrow> int) \<Rightarrow> real \<Rightarrow> instant \<Rightarrow> resource list \<Rightarrow> emergency_request
     \<Rightarrow> resource list \<times> emergency_request \<times> bool" where
  "match_one hash max_radius now rows request =
     (case match_request_to_resource hash max_radius rows request of
        Some resource \<Rightarrow>
          (let request = request\<lparr>resource_id := Some (res_id resource),
                                 status := MATCHED,
                                 matched_at := Some now,
                                 total_cost := price_per_unit resource\<rparr>;
               resource = fst (update_capacity now resource (quantity_or_1 (quantity_needed request)))
           in (store_resource resource rows, request, True))
      | None \<Rightarrow> (rows, request, False))"

text \<open>
  The loop, with its two counters; the state also carries both tables and the
  request objects in the order they were processed.
\<close>

fun match_loop ::
  "(string \<Rightarrow> int) \<Rightarrow> real \<Rightarrow> instant \<Rightarrow> emergency_request list
     \<Rightarrow> resource list \<times> emergency_request list \<times> emergency_request list \<times> int \<times> int
     \<Rightarrow> resource list \<times> emergency_request list \<times> emergency_request list \<times> int \<times> int" where
  "match_loop hash max_radius now [] st = st"
| "match_loop hash max_radius now (request # rest) (rows, reqs, processed, matched_count, failed_count) =
     (case match_one hash max_radius now rows request of
        (rows', request', True) \<Rightarrow>
          match_loop hash max_radius now rest
            (rows', store_request request' reqs, processed @ [request'], matched_count + 1, failed_count)
      | (rows', request', False) \<Rightarrow>
          match_loop hash max_radius now rest
            (rows', reqs, processed @ [request'], matched_count, failed_count + 1))"

record match_summary =
  total_processed :: int
  matched :: int
  failed :: int

definition pending_requests :: "instant \<Rightarrow> emergency_request list \<Rightarrow> emergency_request list" where
  "pending_requests now reqs =
     (let five_minutes_ago = now - timedelta_minutes 5
      in sort_key (\<lambda>q. (- priority_level q, created_at q))
           (filter (\<lambda>q. status q = PENDING \<and> created_at q \<le> five_minutes_ago) reqs))"

definition auto_match_pending_requests ::
  "(string \<Rightarrow> int) \<Rightarrow> real \<Rightarrow> instant \<Rightarrow> database \<Rightarrow> database \<times> match_summary" where
  "auto_match_pending_requests hash max_radius now db =
     (let pending = pending_requests now (emergency_requests db);
          (rows, reqs, processed, matched_count, failed_count) =
             match_loop hash max_radius now pending
               (resources db, emergency_requests db, [], 0, 0)
      in (db\<lparr>resources := rows, emergency_requests := reqs\<rparr>,
          \<lparr>total_processed = int (length pending),
           matched = matched_count,
           failed = failed_count\<rparr>))"

section \<open>Reference numbers (EmergencyRequest.generate_reference_number)\<close>

text \<open>
  The calendar date of \<open>datetime.utcnow()\<close>, and \<open>strftime("%y%m%d")\<close>: the year
  without century, the month and the day, each as a zero-padded decimal number.
\<close>

record date =
  year :: nat
  month :: nat
  day :: nat


definition digit_char :: "nat \<Rightarrow> char" where
  "digit_char n = char_of (48 + n)"

fun decimal :: "nat \<Rightarrow> string" where
  "decimal n = (if n < 10 then [digit_char n] else decimal (n div 10) @ [digit_char (n mod 10)])"

declare decimal.simps [simp del]

definition zero_pad2 :: "string \<Rightarrow> string" where
  "zero_pad2 s = replicate (2 - length s) (CHR ''0'') @ s"

definition strftime_ymd :: "date \<Rightarrow> string" where
  "strftime_ymd d = zero_pad2 (decimal (year d mod 100)) @ zero_pad2 (decimal (month d))
                    @ zero_pad2 (decimal (day d))"

text \<open>
  \<open>secrets.token_hex(3)\<close> renders three random bytes as six lower-case
  hexadecimal digits; the bytes drawn are an input of the model.
\<close>

definition hex_digit :: "nat \<Rightarrow> char" where
  "hex_digit n = (if n < 10 then char_of (48 + n) else char_of (87 + n))"

definition token_hex :: "8 word list \<Rightarrow> string" where
  "token_hex bs = concat (map (\<lambda>b. [hex_digit (unat b div 16), hex_digit (unat b mod 16)]) bs)"

definition upper_char :: "char \<Rightarrow> char" where
  "upper_char c = (if 97 \<le> (of_char c :: nat) \<and> (of_char c :: nat) \<le> 122
                   then char_of (of_char c - 32 :: nat) else c)"

definition upper :: "string \<Rightarrow> string" where
  "upper s = map upper_char s"

definition generate_reference_number :: "date \<Rightarrow> 8 word list \<Rightarrow> string" where
  "generate_reference_number today entropy =
     (let prefix = ''ER'';
          timestamp = strftime_ymd today;
          random_part = upper (token_hex entropy)
      in prefix @ timestamp @ random_part)"




section \<open>Duplicate guard (app/security.py)\<close>

definition check_duplicate_requests ::
  "instant \<Rightarrow> emergency_request list \<Rightarrow> int \<Rightarrow> ResourceType \<Rightarrow> string \<Rightarrow> int \<Rightarrow> bool" where
  "check_duplicate_requests now reqs uid rt loc time_window_minutes =
     (let time_threshold = now - timedelta_minutes time_window_minutes;
          duplicate = find (\<lambda>q. user_id q = uid
                               \<and> req_resource_type q = rt
                               \<and> req_location q = loc
                               \<and> created_at q > time_threshold
                               \<and> status q \<noteq> CANCELLED) reqs
      in duplicate \<noteq> None)"

section \<open>USSD sessions (app/models.py, app/ussd/routes.py)\<close>






section \<open>USSDMenuHandler (app/ussd/routes.py)\<close>

text \<open>
  The handler object: the session id and text of the call, the user found or
  created for the phone number, and the session.
\<close>

record handler =
  h_session_id :: string
  h_text :: string
  h_user_id :: int
  h_session :: "ussd_session option"

definition crlf :: string where
  "crlf = [char_of (13 :: nat), char_of (10 :: nat)]"

definition continue_session :: "string \<Rightarrow> string" where
  "continue_session message = ''CON '' @ message"

text \<open>\<open>_end_session\<close> deletes the handler's session and answers \<open>END\<close>.\<close>

definition end_session :: "handler \<Rightarrow> database \<Rightarrow> string \<Rightarrow> database \<times> string" where
  "end_session h db message =
     (case h_session h of
        Some s \<Rightarrow> (db\<lparr>ussd_sessions := (ussd_sessions db)(session_id s := None)\<rparr>,
                   ''END '' @ message)
      | None \<Rightarrow> (db, ''END '' @ message))"

definition main_menu_text :: string where
  "main_menu_text = ''Emergency Response System'' @ crlf @ ''Select service needed:'' @ crlf
                    @ ''1. Shelter'' @ crlf @ ''2. Food'' @ crlf @ ''3. Transport'' @ crlf
                    @ ''0. Exit''"

definition show_main_menu :: "handler \<Rightarrow> database \<Rightarrow> database \<times> string" where
  "show_main_menu h db =
     (case h_session h of
        Some s \<Rightarrow>
          (db\<lparr>ussd_sessions := (ussd_sessions db)(session_id s \<mapsto> s\<lparr>current_step := ''main_menu''\<rparr>)\<rparr>,
           continue_session main_menu_text)
      | None \<Rightarrow> (db, continue_session main_menu_text))"





text \<open>\<open>ResourceType(value)\<close>: a \<open>ValueError\<close> for any other string.\<close>

definition ResourceType_of_value :: "string \<Rightarrow> ResourceType option" where
  "ResourceType_of_value v =
     (if v = ''shelter'' then Some SHELTER
      else if v = ''food'' then Some FOOD
      else if v = ''transport'' then Some TRANSPORT
      else None)"

text \<open>\<open>Resource.query.get(resource_id)\<close>.\<close>

definition get_resource :: "database \<Rightarrow> int \<Rightarrow> resource option" where
  "get_resource db rid = find (\<lambda>r. res_id r = rid) (resources db)"

text \<open>The primary key the insert gives to a new request row.\<close>

definition next_req_id :: "emergency_request list \<Rightarrow> int" where
  "next_req_id reqs = fold (\<lambda>q m. max m (req_id q)) reqs 0 + 1"

text \<open>
  \<open>EmergencyRequest(user_id, resource_type, location, resource_id=..,
  total_cost=..)\<close> and the column defaults the insert fills in.
\<close>

definition EmergencyRequest_init ::
  "instant \<Rightarrow> date \<Rightarrow> 8 word list \<Rightarrow> int \<Rightarrow> int \<Rightarrow> ResourceType \<Rightarrow> string \<Rightarrow> int \<Rightarrow> real
     \<Rightarrow> emergency_request" where
  "EmergencyRequest_init now today entropy new_id uid rt loc rid cost =
     \<lparr>req_id = new_id,
      reference_number = generate_reference_number today entropy,
      user_id = uid,
      resource_id = Some rid,
      req_resource_type = rt,
      req_location = loc,
      req_latitude = None,
      req_longitude = None,
      quantity_needed = Some 1,
      status = PENDING,
      created_at = now,
      matched_at = None,
      priority_level = 1,
      total_cost = cost\<rparr>"

definition str_of_optional :: "string option \<Rightarrow> string" where
  "str_of_optional x = (case x of None \<Rightarrow> ''None'' | Some s \<Rightarrow> s)"

text \<open>
  \<open>_handle_confirmation\<close>. A missing key of the session data (\<open>KeyError\<close>) or an
  unknown resource type (\<open>ValueError\<close>) is caught by the handler's \<open>except\<close>:
  the transaction is rolled back, nothing has been written yet, and the answer
  is the failure message. The two notifications are sent inside \<open>try\<close> blocks
  whose handlers only log; they touch no table.
\<close>

definition request_failed :: "handler \<Rightarrow> database \<Rightarrow> database \<times> string" where
  "request_failed h db = end_session h db ''Failed to process request. Please try again.''"

definition handle_confirmation ::
  "instant \<Rightarrow> date \<Rightarrow> 8 word list \<Rightarrow> handler \<Rightarrow> database \<Rightarrow> string \<Rightarrow> session_vars
     \<Rightarrow> database \<times> string" where
  "handle_confirmation now today entropy h db selection sd =
     (if selection = ''2'' then end_session h db ''Request cancelled. Stay safe!''
      else if selection \<noteq> ''1'' then
        (db, continue_session (''Please choose:'' @ crlf @ ''1. Confirm'' @ crlf @ ''2. Cancel''))
      else
        (case sd_selected_resource_id sd of
           None \<Rightarrow> request_failed h db
         | Some rid \<Rightarrow>
            (case get_resource db rid of
               None \<Rightarrow> end_session h db ''Resource no longer available. Please try again.''
             | Some resource \<Rightarrow>
                if available_capacity resource \<le> 0
                then end_session h db ''Resource no longer available. Please try again.''
                else
                  (case sd_resource_type sd of
                     None \<Rightarrow> request_failed h db
                   | Some v \<Rightarrow>
                      (case ResourceType_of_value v of
                         None \<Rightarrow> request_failed h db
                       | Some rt \<Rightarrow>
                          (case sd_location sd of
                             None \<Rightarrow> request_failed h db
                           | Some loc \<Rightarrow>
                              if check_duplicate_requests now (emergency_requests db)
                                   (h_user_id h) rt loc 30
                              then end_session h db
                                     (''You have a similar pending request. ''
                                      @ ''Please wait for it to be processed.'')
                              else
                                (let emergency_request =
                                       EmergencyRequest_init now today entropy
                                         (next_req_id (emergency_requests db))
                                         (h_user_id h) rt loc rid (price_per_unit resource);
                                     resource = fst (update_capacity now resource 1);
                                     emergency_request =
                                       emergency_request\<lparr>status := MATCHED, matched_at := Some now\<rparr>;
                                     db = db\<lparr>resources := store_resource resource (resources db),
                                             emergency_requests :=
                                               emergency_requests db @ [emergency_request]\<rparr>
                                 in end_session h db
                                      (''Request confirmed!'' @ crlf
                                       @ ''Reference: '' @ reference_number emergency_request @ crlf
                                       @ ''Provider: '' @ name resource @ crlf
                                       @ ''Contact: '' @ str_of_optional (contact_phone resource) @ crlf
                                       @ ''You will receive SMS confirmation shortly.''))))))))"

section \<open>Examples and specification-side definitions\<close>

text \<open>An example row: a free shelter in Lokoja with all \<open>n\<close> places available.\<close>

definition full_shelter :: "int \<Rightarrow> resource" where
  "full_shelter n =
     \<lparr>res_id = 1, name = ''Shelter A'', resource_type = SHELTER, location = ''Lokoja'',
      latitude = None, longitude = None, total_capacity = n, available_capacity = n,
      contact_phone = None, price_per_unit = 0, is_active = True, updated_at = 0,
      distance = None\<rparr>"


text \<open>Example rows: a shelter without coordinates and one with coordinates.\<close>

definition lokoja_shelter :: resource where
  "lokoja_shelter =
     \<lparr>res_id = 1, name = ''Shelter A'', resource_type = SHELTER, location = ''Lokoja Central'',
      latitude = None, longitude = None, total_capacity = 5, available_capacity = 5,
      contact_phone = None, price_per_unit = 0, is_active = True, updated_at = 0,
      distance = None\<rparr>"

definition ganaja_shelter :: resource where
  "ganaja_shelter =
     \<lparr>res_id = 2, name = ''Shelter B'', resource_type = SHELTER, location = ''Ganaja'',
      latitude = Some 7.8, longitude = Some 6.7, total_capacity = 10, available_capacity = 3,
      contact_phone = None, price_per_unit = 0, is_active = True, updated_at = 0,
      distance = None\<rparr>"


text \<open>An example request: high priority, text location, no coordinates.\<close>

definition sample_request :: emergency_request where
  "sample_request =
     \<lparr>req_id = 1, reference_number = ''ER260101A1B2C3'', user_id = 7, resource_id = None,
      req_resource_type = SHELTER, req_location = ''Lokoja'', req_latitude = None,
      req_longitude = None, quantity_needed = Some 1, status = PENDING, created_at = 0,
      matched_at = None, priority_level = 5, total_cost = 0\<rparr>"

definition hash_3 :: "string \<Rightarrow> int" where
  "hash_3 s = 3"





text \<open>
  An example confirmation call: caller 7 has chosen the shelter with key 1 in
  Lokoja; the second database already holds a request of the same caller, type
  and location.
\<close>

definition confirm_vars :: session_vars where
  "confirm_vars = \<lparr>sd_resource_type = Some ''shelter'', sd_location = Some ''Lokoja'',
                    sd_resources = Some [1], sd_selected_resource_id = Some 1\<rparr>"

definition confirm_session :: ussd_session where
  "confirm_session = \<lparr>session_id = ''s1'', sess_user_id = 7, current_step = ''confirmation'',
                       session_data = confirm_vars, sess_created_at = 0, last_activity = 0,
                       expires_at = 600000000\<rparr>"

definition confirm_handler :: handler where
  "confirm_handler = \<lparr>h_session_id = ''s1'', h_text = ''1*Lokoja*1*1'', h_user_id = 7,
                       h_session = Some confirm_session\<rparr>"

definition confirm_db :: database where
  "confirm_db = \<lparr>resources = [lokoja_shelter], emergency_requests = [],
                  ussd_sessions = [''s1'' \<mapsto> confirm_session]\<rparr>"

definition duplicate_db :: database where
  "duplicate_db = confirm_db\<lparr>emergency_requests := [sample_request]\<rparr>"

definition sample_day :: date where
  "sample_day = \<lparr>year = 2026, month = 1, day = 5\<rparr>"

definition sample_entropy :: "8 word list" where
  "sample_entropy = [0xA1, 0xB2, 0xC3]"

text \<open>
  A backlog example: a pending request for three places, and a shelter with one
  place left.
\<close>

definition big_request :: emergency_request where
  "big_request = sample_request\<lparr>quantity_needed := Some 3\<rparr>"

definition last_place :: resource where
  "last_place = lokoja_shelter\<lparr>available_capacity := 1\<rparr>"

definition backlog_db :: database where
  "backlog_db = \<lparr>resources = [last_place], emergency_requests = [big_request],
                  ussd_sessions = Map.empty\<rparr>"


section \<open>Resource.update_capacity\<close>

text \<open>
  C2 (counterexample): the claim quantifies over every quantity. For the quantity
  \<open>-1\<close> on a full resource (5 of 5 available) the guard \<open>5 \<ge> -1\<close> passes, the
  call succeeds and the available capacity becomes 6, above the total capacity 5.
\<close>

theorem update_capacity_negative_quantity_counterexample:
  "snd (update_capacity 0 (full_shelter 5) (- 1))
   \<and> available_capacity (full_shelter 5) \<le> total_capacity (full_shelter 5)
   \<and> total_capacity (fst (update_capacity 0 (full_shelter 5) (- 1))) = 5
   \<and> available_capacity (fst (update_capacity 0 (full_shelter 5) (- 1))) = 6
   \<and> \<not> available_capacity (fst (update_capacity 0 (full_shelter 5) (- 1)))
         \<le> total_capacity (fst (update_capacity 0 (full_shelter 5) (- 1)))"
  by (simp add: update_capacity_def full_shelter_def)

text \<open>
  C2 (amended): for every resource and every integer quantity \<open>q\<close>,
  \<open>update_capacity\<close> succeeds exactly when the available capacity is at least
  \<open>q\<close>; on success the available capacity has decreased by \<open>q\<close> and the total is
  untouched; on failure the resource is unchanged. Consequently a non-negative
  available capacity never becomes negative, and for a non-negative quantity an
  available capacity inside \<open>[0, total]\<close> stays inside \<open>[0, total]\<close>.
\<close>

theorem update_capacity_reserve:
  "snd (update_capacity now r q) = (available_capacity r \<ge> q)
   \<and> (available_capacity r \<ge> q \<longrightarrow>
        available_capacity (fst (update_capacity now r q)) = available_capacity r - q
        \<and> total_capacity (fst (update_capacity now r q)) = total_capacity r)
   \<and> (available_capacity r < q \<longrightarrow> fst (update_capacity now r q) = r)
   \<and> (0 \<le> available_capacity r \<longrightarrow> 0 \<le> available_capacity (fst (update_capacity now r q)))
   \<and> (0 \<le> q \<and> 0 \<le> available_capacity r \<and> available_capacity r \<le> total_capacity r \<longrightarrow>
        0 \<le> available_capacity (fst (update_capacity now r q))
        \<and> available_capacity (fst (update_capacity now r q)) \<le> total_capacity (fst (update_capacity now r q)))"
  by (simp add: update_capacity_def)

theorem update_capacity_reserve_witness:
  "snd (update_capacity 7 (full_shelter 5) 2)
   \<and> available_capacity (fst (update_capacity 7 (full_shelter 5) 2)) = 3
   \<and> 0 \<le> available_capacity (fst (update_capacity 7 (full_shelter 5) 2))
   \<and> available_capacity (fst (update_capacity 7 (full_shelter 5) 2))
       \<le> total_capacity (fst (update_capacity 7 (full_shelter 5) 2))
   \<and> \<not> snd (update_capacity 7 (full_shelter 5) 6)
   \<and> fst (update_capacity 7 (full_shelter 5) 6) = full_shelter 5"
  using update_capacity_reserve [of 7 "full_shelter 5" 2]
        update_capacity_reserve [of 7 "full_shelter 5" 6]
  by (simp add: full_shelter_def)


section \<open>calculate_distance\<close>

lemma sin_half_diff_sq: "(sin ((x - y) / 2))\<^sup>2 = (sin ((y - x) / 2))\<^sup>2" for x y :: real
proof -
  have "(x - y) / 2 = - ((y - x) / 2)" by argo
  then have "sin ((x - y) / 2) = - sin ((y - x) / 2)" by (metis sin_minus)
  then show ?thesis by simp
qed

lemma calculate_distance_symmetric:
  "calculate_distance lat1 lon1 lat2 lon2 = calculate_distance lat2 lon2 lat1 lon1"
proof -
  have "(sin ((radians b - radians a) / 2))\<^sup>2 = (sin ((radians a - radians b) / 2))\<^sup>2" for a b
    by (rule sin_half_diff_sq)
  then show ?thesis
    by (auto simp: calculate_distance_def Let_def mult.commute)
qed


text \<open>
  C9: the distance is symmetric, and the distance from every point to itself is
  0. Symmetry holds (\<open>calculate_distance_symmetric\<close>), and so does the second
  part for points with two non-zero coordinates (\<open>calculate_distance_self\<close>).
  At the point with latitude 0 and longitude 6.7, on the equator, the guard
  \<open>not all([...])\<close> takes the coordinate \<open>0.0\<close> for a missing one and the
  function returns infinity instead of 0.
\<close>

theorem calculate_distance_equator_self:
  "calculate_distance (Some 0) (Some 6.7) (Some 0) (Some 6.7) = Infinite
   \<and> calculate_distance (Some 0) (Some 6.7) (Some 0) (Some 6.7) \<noteq> Finite 0"
  by (simp add: calculate_distance_def truthy_def)

section \<open>find_nearby_resources\<close>













lemma set_nearby_loop:
  "set (nearby_loop ulat ulon radius rs) =
     {r\<lparr>distance := Some d\<rparr> | r d. r \<in> set rs \<and> truthy (latitude r) \<and> truthy (longitude r)
        \<and> calculate_distance ulat ulon (latitude r) (longitude r) = Finite d \<and> d \<le> radius}"
proof (induction rs)
  case Nil
  then show ?case by simp
next
  case (Cons r rs)
  show ?case
  proof (cases "truthy (latitude r) \<and> truthy (longitude r)")
    case False
    with Cons show ?thesis by auto
  next
    case True
    show ?thesis
    proof (cases "calculate_distance ulat ulon (latitude r) (longitude r)")
      case Infinite
      with True Cons show ?thesis by auto
    next
      case (Finite d)
      with True Cons show ?thesis by (cases "d \<le> radius") auto
    qed
  qed
qed

lemma truthy_iff: "truthy x \<longleftrightarrow> x \<noteq> None \<and> x \<noteq> Some 0"
  by (cases x) (auto simp: truthy_def)

lemma find_nearby_coordinate_mode:
  assumes "truthy ulat" "truthy ulon"
  shows "find_nearby_resources rows rt loc radius ulat ulon =
           sort_key (\<lambda>r. (distance r, - available_capacity r))
             (nearby_loop ulat ulon radius (base_query rt rows))"
  using assms by (simp add: find_nearby_resources_def)

lemma find_nearby_text_mode:
  assumes "\<not> (truthy ulat \<and> truthy ulon)"
  shows "find_nearby_resources rows rt loc radius ulat ulon =
           sort_key (\<lambda>r. - available_capacity r)
             (filter (\<lambda>r. ilike (location r) (''%'' @ loc @ ''%'')
                          \<or> ilike (location r) (''%'' @ lower loc @ ''%'')) (base_query rt rows))"
  using assms by (auto simp add: find_nearby_resources_def Let_def)





text \<open>
  C10: a \<open>None\<close> or zero argument makes \<open>calculate_distance\<close> infinite; in the
  coordinate search no resource with latitude 0 or longitude 0 is returned; and
  a caller with latitude 0 or longitude 0 gets the text-based search, the same
  result as with no coordinates at all.
\<close>

theorem zero_coordinates_treated_as_missing:
  "((lat1 = None \<or> lat1 = Some 0 \<or> lon1 = None \<or> lon1 = Some 0
      \<or> lat2 = None \<or> lat2 = Some 0 \<or> lon2 = None \<or> lon2 = Some 0)
     \<longrightarrow> calculate_distance lat1 lon1 lat2 lon2 = Infinite)
   \<and> (ulat \<noteq> None \<and> ulat \<noteq> Some 0 \<and> ulon \<noteq> None \<and> ulon \<noteq> Some 0 \<longrightarrow>
        (\<forall>r \<in> set (find_nearby_resources rows rt loc radius ulat ulon).
            latitude r \<noteq> Some 0 \<and> longitude r \<noteq> Some 0))
   \<and> (ulat = Some 0 \<or> ulon = Some 0 \<longrightarrow>
        find_nearby_resources rows rt loc radius ulat ulon =
          sort_key (\<lambda>r. - available_capacity r)
             (filter (\<lambda>r. ilike (location r) (''%'' @ loc @ ''%'')
                          \<or> ilike (location r) (''%'' @ lower loc @ ''%'')) (base_query rt rows))
        \<and> find_nearby_resources rows rt loc radius ulat ulon =
            find_nearby_resources rows rt loc radius None None)"
proof (intro conjI impI ballI)
  assume "lat1 = None \<or> lat1 = Some 0 \<or> lon1 = None \<or> lon1 = Some 0
      \<or> lat2 = None \<or> lat2 = Some 0 \<or> lon2 = None \<or> lon2 = Some 0"
  then show "calculate_distance lat1 lon1 lat2 lon2 = Infinite"
    by (auto simp: calculate_distance_def truthy_def)
next
  fix r
  assume c: "ulat \<noteq> None \<and> ulat \<noteq> Some 0 \<and> ulon \<noteq> None \<and> ulon \<noteq> Some 0"
    and "r \<in> set (find_nearby_resources rows rt loc radius ulat ulon)"
  then have "r \<in> set (nearby_loop ulat ulon radius (base_query rt rows))"
    by (simp add: find_nearby_coordinate_mode truthy_iff)
  then obtain r0 d where "r = r0\<lparr>distance := Some d\<rparr>" "truthy (latitude r0)" "truthy (longitude r0)"
    unfolding set_nearby_loop by blast
  then show "latitude r \<noteq> Some 0" "longitude r \<noteq> Some 0"
    by (simp_all add: truthy_iff)
next
  assume z: "ulat = Some 0 \<or> ulon = Some 0"
  then have nt: "\<not> (truthy ulat \<and> truthy ulon)" by (auto simp: truthy_def)
  then show "find_nearby_resources rows rt loc radius ulat ulon =
          sort_key (\<lambda>r. - available_capacity r)
             (filter (\<lambda>r. ilike (location r) (''%'' @ loc @ ''%'')
                          \<or> ilike (location r) (''%'' @ lower loc @ ''%'')) (base_query rt rows))"
    by (rule find_nearby_text_mode)
  have nn: "\<not> (truthy None \<and> truthy None)" by (simp add: truthy_def)
  show "find_nearby_resources rows rt loc radius ulat ulon =
            find_nearby_resources rows rt loc radius None None"
    by (simp only: find_nearby_text_mode [OF nt] find_nearby_text_mode [OF nn])
qed

text \<open>C10 (witness): the three parts on the example rows.\<close>

theorem zero_coordinates_treated_as_missing_witness:
  "calculate_distance (Some 7.8) (Some 0) (Some 7.9) (Some 6.7) = Infinite
   \<and> list_all (\<lambda>r. latitude r \<noteq> Some 0 \<and> longitude r \<noteq> Some 0)
        (find_nearby_resources [ganaja_shelter, lokoja_shelter] SHELTER ''Lokoja'' 50 (Some 7.8) (Some 6.7))
   \<and> find_nearby_resources [ganaja_shelter, lokoja_shelter] SHELTER ''Lokoja'' 50 (Some 0) (Some 6.7)
       = find_nearby_resources [ganaja_shelter, lokoja_shelter] SHELTER ''Lokoja'' 50 None None"
proof -
  note t1 = zero_coordinates_treated_as_missing
          [of "Some 7.8" "Some 0" "Some 7.9" "Some 6.7" "Some 7.8" "Some 6.7"
              "[ganaja_shelter, lokoja_shelter]" SHELTER "''Lokoja''" 50]
  note t2 = zero_coordinates_treated_as_missing
          [of "Some 7.8" "Some 0" "Some 7.9" "Some 6.7" "Some 0" "Some 6.7"
              "[ganaja_shelter, lokoja_shelter]" SHELTER "''Lokoja''" 50]
  have a: "Some (7.8::real) = None \<or> Some (7.8::real) = Some 0
           \<or> Some (0::real) = None \<or> Some (0::real) = Some 0
           \<or> Some (7.9::real) = None \<or> Some (7.9::real) = Some 0
           \<or> Some (6.7::real) = None \<or> Some (6.7::real) = Some 0" by simp
  have c: "Some (7.8::real) \<noteq> None \<and> Some (7.8::real) \<noteq> Some 0
           \<and> Some (6.7::real) \<noteq> None \<and> Some (6.7::real) \<noteq> Some 0" by simp
  have z: "Some (0::real) = Some 0 \<or> Some (6.7::real) = Some 0" by simp
  from t1 a have 1: "calculate_distance (Some 7.8) (Some 0) (Some 7.9) (Some 6.7) = Infinite"
    by blast
  from t1 c have 2: "\<forall>r \<in> set (find_nearby_resources [ganaja_shelter, lokoja_shelter] SHELTER ''Lokoja'' 50 (Some 7.8) (Some 6.7)).
        latitude r \<noteq> Some 0 \<and> longitude r \<noteq> Some 0"
    by blast
  from t2 z have 3: "find_nearby_resources [ganaja_shelter, lokoja_shelter] SHELTER ''Lokoja'' 50 (Some 0) (Some 6.7)
       = find_nearby_resources [ganaja_shelter, lokoja_shelter] SHELTER ''Lokoja'' 50 None None"
    by blast
  from 2 have 4: "list_all (\<lambda>r. latitude r \<noteq> Some 0 \<and> longitude r \<noteq> Some 0)
        (find_nearby_resources [ganaja_shelter, lokoja_shelter] SHELTER ''Lokoja'' 50 (Some 7.8) (Some 6.7))"
    by (simp add: list_all_iff)
  from 1 4 3 show ?thesis by blast
qed

section \<open>_apply_matching_algorithm\<close>






section \<open>Reproducibility of the matching\<close>









section \<open>Reference numbers\<close>







section \<open>Duplicate guard and confirmation\<close>

lemma find_not_None: "(find P xs \<noteq> None) = (\<exists>x \<in> set xs. P x)"
  by (induction xs) auto

lemma check_duplicate_requests_iff:
  "check_duplicate_requests now reqs uid rt loc w =
     (\<exists>q \<in> set reqs. user_id q = uid \<and> req_resource_type q = rt \<and> req_location q = loc
         \<and> created_at q > now - timedelta_minutes w \<and> status q \<noteq> CANCELLED)"
  unfolding check_duplicate_requests_def Let_def find_not_None by (rule refl)

lemma end_session_tables:
  "resources (fst (end_session h db m)) = resources db
   \<and> emergency_requests (fst (end_session h db m)) = emergency_requests db
   \<and> snd (end_session h db m) = ''END '' @ m"
  by (simp add: end_session_def split: option.splits)





text \<open>
  C5: \<open>check_duplicate_requests\<close> is true exactly when some request of the same
  caller, resource type and location text, not cancelled, was created after
  \<open>now\<close> minus the window; and when it is true for the session's type and
  location, a confirmation attempt (token \<open>1\<close>) ends the session with an \<open>END\<close>
  answer, leaves the request table and the resource table unchanged, and, when
  the selected resource is still available, answers with the wait message.
\<close>

theorem duplicate_guard_blocks:
  "check_duplicate_requests now reqs uid rt loc w =
     (\<exists>q \<in> set reqs. user_id q = uid \<and> req_resource_type q = rt \<and> req_location q = loc
         \<and> created_at q > now - timedelta_minutes w \<and> status q \<noteq> CANCELLED)
   \<and> (sd_resource_type sd = Some v \<and> ResourceType_of_value v = Some rt
       \<and> sd_location sd = Some loc
       \<and> check_duplicate_requests now (emergency_requests db) (h_user_id h) rt loc 30 \<longrightarrow>
         emergency_requests (fst (handle_confirmation now today entropy h db ''1'' sd))
           = emergency_requests db
         \<and> resources (fst (handle_confirmation now today entropy h db ''1'' sd)) = resources db
         \<and> take 4 (snd (handle_confirmation now today entropy h db ''1'' sd)) = ''END ''
         \<and> (\<forall>rid r. sd_selected_resource_id sd = Some rid \<and> get_resource db rid = Some r
               \<and> available_capacity r > 0 \<longrightarrow>
              snd (handle_confirmation now today entropy h db ''1'' sd)
                = ''END You have a similar pending request. Please wait for it to be processed.''))"
proof (intro conjI impI allI)
  show "check_duplicate_requests now reqs uid rt loc w =
     (\<exists>q \<in> set reqs. user_id q = uid \<and> req_resource_type q = rt \<and> req_location q = loc
         \<and> created_at q > now - timedelta_minutes w \<and> status q \<noteq> CANCELLED)"
    by (rule check_duplicate_requests_iff)
next
  assume a: "sd_resource_type sd = Some v \<and> ResourceType_of_value v = Some rt
       \<and> sd_location sd = Some loc
       \<and> check_duplicate_requests now (emergency_requests db) (h_user_id h) rt loc 30"
  let ?res = "handle_confirmation now today entropy h db ''1'' sd"
  from a have "\<exists>m. ?res = end_session h db m"
    by (auto simp: handle_confirmation_def request_failed_def split: option.splits)
  then obtain m where m: "?res = end_session h db m" by blast
  show "emergency_requests (fst ?res) = emergency_requests db"
    "resources (fst ?res) = resources db"
    "take 4 (snd ?res) = ''END ''"
    unfolding m using end_session_tables [of h db m] by simp_all
next
  fix rid r
  assume a: "sd_resource_type sd = Some v \<and> ResourceType_of_value v = Some rt
       \<and> sd_location sd = Some loc
       \<and> check_duplicate_requests now (emergency_requests db) (h_user_id h) rt loc 30"
    and b: "sd_selected_resource_id sd = Some rid \<and> get_resource db rid = Some r
               \<and> available_capacity r > 0"
  then have "handle_confirmation now today entropy h db ''1'' sd
        = end_session h db (''You have a similar pending request. '' @ ''Please wait for it to be processed.'')"
    by (simp add: handle_confirmation_def)
  then show "snd (handle_confirmation now today entropy h db ''1'' sd)
                = ''END You have a similar pending request. Please wait for it to be processed.''"
    using end_session_tables [of h db "''You have a similar pending request. '' @ ''Please wait for it to be processed.''"]
    by simp
qed

text \<open>C5 (witness): the example call on the database with the earlier request.\<close>

theorem duplicate_guard_blocks_witness:
  "check_duplicate_requests 600000000 [sample_request] 7 SHELTER ''Lokoja'' 30
   \<and> emergency_requests (fst (handle_confirmation 600000000 sample_day sample_entropy
                               confirm_handler duplicate_db ''1'' confirm_vars))
       = [sample_request]
   \<and> resources (fst (handle_confirmation 600000000 sample_day sample_entropy
                               confirm_handler duplicate_db ''1'' confirm_vars))
       = [lokoja_shelter]
   \<and> snd (handle_confirmation 600000000 sample_day sample_entropy
                               confirm_handler duplicate_db ''1'' confirm_vars)
       = ''END You have a similar pending request. Please wait for it to be processed.''"
proof -
  have d: "check_duplicate_requests 600000000 [sample_request] 7 SHELTER ''Lokoja'' 30"
    by (simp add: check_duplicate_requests_def sample_request_def timedelta_minutes_def)
  have h: "sd_resource_type confirm_vars = Some ''shelter''
       \<and> ResourceType_of_value ''shelter'' = Some SHELTER
       \<and> sd_location confirm_vars = Some ''Lokoja''
       \<and> check_duplicate_requests 600000000 (emergency_requests duplicate_db)
            (h_user_id confirm_handler) SHELTER ''Lokoja'' 30"
    using d by (simp add: confirm_vars_def ResourceType_of_value_def duplicate_db_def
        confirm_db_def confirm_handler_def)
  have r: "sd_selected_resource_id confirm_vars = Some 1
       \<and> get_resource duplicate_db 1 = Some lokoja_shelter
       \<and> available_capacity lokoja_shelter > 0"
    by (simp add: confirm_vars_def get_resource_def duplicate_db_def confirm_db_def
        lokoja_shelter_def)
  note t = duplicate_guard_blocks [of 600000000 "[sample_request]" 7 SHELTER "''Lokoja''" 30
      confirm_vars "''shelter''" duplicate_db confirm_handler sample_day sample_entropy]
  from t h r have "snd (handle_confirmation 600000000 sample_day sample_entropy
                               confirm_handler duplicate_db ''1'' confirm_vars)
       = ''END You have a similar pending request. Please wait for it to be processed.''"
    by blast
  moreover from t h have "emergency_requests (fst (handle_confirmation 600000000 sample_day sample_entropy
                               confirm_handler duplicate_db ''1'' confirm_vars))
       = emergency_requests duplicate_db"
     "resources (fst (handle_confirmation 600000000 sample_day sample_entropy
                               confirm_handler duplicate_db ''1'' confirm_vars))
       = resources duplicate_db"
    by blast+
  ultimately show ?thesis
    using d by (simp add: duplicate_db_def confirm_db_def)
qed

section \<open>Session expiry\<close>






section \<open>Confirmation\<close>




section \<open>auto_match_pending_requests\<close>

text \<open>
  The selection and its order, and the counters of the summary, are as
  specified.
\<close>

lemma pending_requests_selection:
  "set (pending_requests now reqs)
     = {q \<in> set reqs. status q = PENDING \<and> created_at q \<le> now - timedelta_minutes 5}
   \<and> sorted (map (\<lambda>q. (- priority_level q, created_at q)) (pending_requests now reqs))"
  by (auto simp: pending_requests_def Let_def)

lemma match_loop_counts:
  "match_loop hash max_radius now pending (rows, reqs, processed, m, f)
     = (rows', reqs', processed', m', f')
   \<Longrightarrow> m' + f' = m + f + int (length pending)
       \<and> length processed' = length processed + length pending"
proof (induction pending arbitrary: rows reqs processed m f)
  case Nil
  then show ?case by simp
next
  case (Cons q qs)
  obtain rows1 q1 ok where o: "match_one hash max_radius now rows q = (rows1, q1, ok)"
    by (cases "match_one hash max_radius now rows q") auto
  show ?case
  proof (cases ok)
    case True
    with o Cons.prems have "match_loop hash max_radius now qs
        (rows1, store_request q1 reqs, processed @ [q1], m + 1, f) = (rows', reqs', processed', m', f')"
      by simp
    from Cons.IH [OF this] show ?thesis by simp
  next
    case False
    with o Cons.prems have "match_loop hash max_radius now qs
        (rows1, reqs, processed @ [q1], m, f + 1) = (rows', reqs', processed', m', f')"
      by simp
    from Cons.IH [OF this] show ?thesis by simp
  qed
qed

lemma auto_match_summary:
  "total_processed (snd (auto_match_pending_requests hash max_radius now db))
     = int (length (pending_requests now (emergency_requests db)))
   \<and> total_processed (snd (auto_match_pending_requests hash max_radius now db))
     = matched (snd (auto_match_pending_requests hash max_radius now db))
       + failed (snd (auto_match_pending_requests hash max_radius now db))"
proof -
  obtain rows' reqs' processed' m' f' where
    l: "match_loop hash max_radius now (pending_requests now (emergency_requests db))
          (resources db, emergency_requests db, [], 0, 0) = (rows', reqs', processed', m', f')"
    by (metis prod_cases5)
  from match_loop_counts [OF l] have "m' + f' = int (length (pending_requests now (emergency_requests db)))"
    by simp
  then show ?thesis
    by (simp add: auto_match_pending_requests_def Let_def l)
qed

text \<open>
  C3: the batch processes the pending requests that are at least 5 minutes old
  in order of priority and age, and for each request it matches it sets status,
  match time and cost and decreases the resource's available capacity by the
  request's quantity. On the backlog example the request asks for 3, the only
  candidate has 1 place left, \<open>update_capacity\<close> returns \<open>False\<close> and changes
  nothing, and the batch still marks the request matched and counts it as
  matched: the capacity stays 1.
\<close>

theorem auto_match_over_commits:
  "pending_requests 600000000 (emergency_requests backlog_db) = [big_request]
   \<and> quantity_needed big_request = Some 3
   \<and> match_request_to_resource hash_3 50 (resources backlog_db) big_request = Some last_place
   \<and> available_capacity last_place = 1
   \<and> \<not> snd (update_capacity 600000000 last_place 3)
   \<and> map status (emergency_requests (fst (auto_match_pending_requests hash_3 50 600000000 backlog_db)))
       = [MATCHED]
   \<and> map available_capacity (resources (fst (auto_match_pending_requests hash_3 50 600000000 backlog_db)))
       = [1]
   \<and> matched (snd (auto_match_pending_requests hash_3 50 600000000 backlog_db)) = 1
   \<and> failed (snd (auto_match_pending_requests hash_3 50 600000000 backlog_db)) = 0"
proof -
  have p: "pending_requests 600000000 (emergency_requests backlog_db) = [big_request]"
    by (simp add: pending_requests_def backlog_db_def big_request_def sample_request_def
        timedelta_minutes_def)
  have c: "ilike ''Lokoja Central'' (''%'' @ ''Lokoja'' @ ''%'')" by code_simp
  have f: "find_nearby_resources [last_place] SHELTER ''Lokoja'' 50 None None = [last_place]"
    using c by (simp add: find_nearby_resources_def base_query_def truthy_def last_place_def
        lokoja_shelter_def)
  have q: "req_resource_type big_request = SHELTER" "req_location big_request = ''Lokoja''"
    "req_latitude big_request = None" "req_longitude big_request = None"
    "quantity_needed big_request = Some 3" "req_id big_request = 1"
    by (simp_all add: big_request_def sample_request_def)
  have m: "match_request_to_resource hash_3 50 [last_place] big_request = Some last_place"
    by (simp add: match_request_to_resource_def q f apply_matching_algorithm_def)
  have u: "update_capacity 600000000 last_place 3 = (last_place, False)"
    by (simp add: update_capacity_def last_place_def)
  have sr: "store_resource last_place [last_place] = [last_place]"
    by (simp add: store_resource_def last_place_def lokoja_shelter_def)
  have pr: "price_per_unit last_place = 0" "res_id last_place = 1"
    by (simp_all add: last_place_def lokoja_shelter_def)
  have one: "match_one hash_3 50 600000000 [last_place] big_request
      = ([last_place],
         big_request\<lparr>resource_id := Some 1, status := MATCHED, matched_at := Some 600000000,
                      total_cost := 0\<rparr>, True)"
    by (simp add: match_one_def m q u quantity_or_1_def sr pr)
  have r: "resources backlog_db = [last_place]" "emergency_requests backlog_db = [big_request]"
    by (simp_all add: backlog_db_def)
  have a: "auto_match_pending_requests hash_3 50 600000000 backlog_db
      = (backlog_db\<lparr>resources := [last_place],
            emergency_requests := [big_request\<lparr>resource_id := Some 1, status := MATCHED,
                                      matched_at := Some 600000000, total_cost := 0\<rparr>]\<rparr>,
         \<lparr>total_processed = 1, matched = 1, failed = 0\<rparr>)"
    unfolding auto_match_pending_requests_def p
    by (simp add: r one store_request_def q Let_def)
  show ?thesis
    using p m u q r by (simp add: a last_place_def)
qed

end
